theory Spec2Isabelle
  imports Complex_Main "HOL-Library.Multiset"
begin

section \<open>Values, tables and external services\<close>

text \<open>
  The retrieval-augmented generation core of the repository: the embedding helpers,
  the two similarity retrievers and the query router of \<^verbatim>\<open>lib/ai/embedding.ts\<close>, the chat
  route handler \<^verbatim>\<open>POST\<close>, and \<^verbatim>\<open>ingestDocument\<close> of \<^verbatim>\<open>scripts/batch-ingest.ts\<close>.

  A rejected promise or a thrown exception is a value \<open>Inl e\<close>; a fulfilled promise is
  \<open>Inr v\<close>. Code that awaits one call after another is a sequence of \<open>case\<close> steps.
\<close>

datatype error =
    TypeError          \<comment> \<open>property read on \<^verbatim>\<open>undefined\<close>\<close>
  | ProviderError string  \<comment> \<open>a rejected call to an external service\<close>

datatype json =
    JNull
  | JBool bool
  | JNumber real
  | JString string
  | JArray "json list"
  | JObject "(string \<times> json) list"

type_synonym vec = "real list"

text \<open>
  A chunk handed to \<^verbatim>\<open>generateEmbeddings\<close> (\<^verbatim>\<open>{ pageContent, metadata }\<close>) and the
  object it returns (\<^verbatim>\<open>{ content, embedding, metadata }\<close>). The metadata is typed
  \<^verbatim>\<open>any\<close> on the way out, hence the type parameter.
\<close>

record 'm chunk =
  pageContent :: string
  metadata :: 'm

record 'm embedded =
  content :: string
  embedding :: vec
  e_metadata :: 'm

text \<open>The metadata object built by the ingestion scripts for every chunk.\<close>

record chunkMeta =
  pageNumber :: int
  m_section :: "string option"
  timestamp :: "string option"

subsection \<open>Tables\<close>

text \<open>
  Each table is the list of its rows in insertion order; an insert appends. Only the
  columns the modelled code reads or writes are kept. A nullable column is an option.
\<close>

record documentRow =
  doc_id :: string
  doc_title :: string
  doc_type :: string
  doc_content :: string
  doc_originalFileName :: string

record embeddingRow =
  emb_id :: string
  emb_resourceId :: string
  emb_embedding :: vec
  emb_content :: string
  emb_metadata :: chunkMeta

record billRow =
  bill_title :: string
  bill_status :: string
  bill_summary :: string
  bill_originalText :: string

record proceedingRow =
  proc_title :: string
  proc_date :: string
  proc_summary :: string
  proc_originalText :: string

record representativeRow =
  rep_id :: string
  rep_nameClean :: string
  rep_constituency :: string
  rep_constituencyCode :: string
  rep_constituencyName :: "string option"
  rep_district :: "string option"
  rep_province :: "string option"
  rep_party :: string
  rep_phone :: "string option"
  rep_permanentAddress :: "string option"
  rep_islamabadAddress :: "string option"

record representativeEmbeddingRow =
  re_representativeId :: string
  re_content :: string
  re_embedding :: vec

text \<open>
  The state the code reads and writes: the database tables, the log of the values sent
  to the embedding provider so far (one entry per provider call), and the number of
  identifiers drawn from \<^verbatim>\<open>nanoid\<close>.
\<close>

record world =
  documents :: "documentRow list"
  embeddings :: "embeddingRow list"
  bills :: "billRow list"
  proceedings :: "proceedingRow list"
  representatives :: "representativeRow list"
  representativeEmbeddings :: "representativeEmbeddingRow list"
  embedCalls :: "string list"
  idsDrawn :: nat

subsection \<open>Rows returned by the retrievers\<close>

text \<open>
  The projections of the two \<^verbatim>\<open>select\<close> calls. Columns of the left-joined parent table
  are options: \<open>None\<close> when no parent row matches.
\<close>

record contentMatch =
  cm_content :: string
  cm_similarity :: real
  documentTitle :: "string option"
  documentType :: "string option"
  cm_metadata :: chunkMeta
  cm_pageNumber :: int
  cm_section :: "string option"

record repMatch =
  name :: "string option"
  constituency :: "string option"
  constituencyCode :: "string option"
  constituencyName :: "string option"
  district :: "string option"
  province :: "string option"
  party :: "string option"
  phone :: "string option"
  permanentAddress :: "string option"
  islamabadAddress :: "string option"
  rm_content :: string
  rm_similarity :: real

subsection \<open>External services\<close>

text \<open>
  What the code calls but does not define is a parameter, collected in one record:
  \<^item> \<open>embed\<close>: the provider's embedding call; the first argument is the number of
    provider calls made before this one, so that a provider may fail on one call and
    answer the next;
  \<^item> \<open>generateText\<close>: the language-model call of the query router;
  \<^item> \<open>JSON_parse\<close>: \<^verbatim>\<open>JSON.parse\<close>, \<open>None\<close> when it throws;
  \<^item> \<open>cosineDistance\<close>: the database's cosine-distance operator;
  \<^item> \<open>orderDocsDesc\<close>, \<open>orderRepsDesc\<close>: what the database does for
    \<^verbatim>\<open>ORDER BY similarity DESC\<close> on the rows that passed the \<^verbatim>\<open>WHERE\<close> clause. SQL fixes the
    result up to the order of rows with equal keys; see \<open>orderByDesc_ok\<close>;
  \<^item> the PDF loader, the text splitter, \<^verbatim>\<open>path.basename\<close>, \<^verbatim>\<open>nanoid\<close> (indexed by the
    number of identifiers drawn before), the two summary generators, and the
    regular-expression helpers of the ingestion script, which no property below inspects.
\<close>

record splitDoc =
  sd_pageContent :: string
  sd_pageNumber :: "int option"

record env =
  embed :: "nat \<Rightarrow> string \<Rightarrow> error + vec"
  generateText :: "string \<Rightarrow> error + string"
  JSON_parse :: "string \<Rightarrow> json option"
  cosineDistance :: "vec \<Rightarrow> vec \<Rightarrow> real"
  orderDocsDesc :: "contentMatch list \<Rightarrow> contentMatch list"
  orderRepsDesc :: "repMatch list \<Rightarrow> repMatch list"
  extractTextFromPDF :: "string \<Rightarrow> error + string"
  createDocuments :: "string \<Rightarrow> splitDoc list"
  path_basename :: "string \<Rightarrow> string"
  nanoid :: "nat \<Rightarrow> string"
  detectSection :: "string \<Rightarrow> string option"
  detectTimestamp :: "string \<Rightarrow> string option"
  extractDateFromFilename :: "string \<Rightarrow> string"
  generateBillSummary :: "string \<Rightarrow> string"
  generateProceedingSummary :: "string \<Rightarrow> string"


section \<open>Embedding provider adapter\<close>

text \<open>One call of \<^verbatim>\<open>embed({ model, value })\<close>: the value is logged, the provider answers.\<close>

definition embedCall :: "env \<Rightarrow> string \<Rightarrow> world \<Rightarrow> (error + vec) \<times> world" where
  "embedCall env v w =
     (embed env (length (embedCalls w)) v, w\<lparr>embedCalls := embedCalls w @ [v]\<rparr>)"

definition generateEmbeddings ::
  "env \<Rightarrow> 'm chunk \<Rightarrow> world \<Rightarrow> (error + 'm embedded list) \<times> world" where
  "generateEmbeddings env chunk w =
     (case embedCall env (pageContent chunk) w of
        (Inl e, w') \<Rightarrow> (Inl e, w')
      | (Inr emb, w') \<Rightarrow>
          (Inr [\<lparr>content = pageContent chunk, embedding = emb, e_metadata = metadata chunk\<rparr>], w'))"

section \<open>Similarity retrievers\<close>

text \<open>\<^verbatim>\<open>a.leftJoin(b, on)\<close>: every row of \<open>a\<close> with each matching row of \<open>b\<close>, or with none.\<close>

definition leftJoin :: "'a list \<Rightarrow> 'b list \<Rightarrow> ('a \<Rightarrow> 'b \<Rightarrow> bool) \<Rightarrow> ('a \<times> 'b option) list" where
  "leftJoin ls rs on =
     concat (map (\<lambda>l. case filter (on l) rs of
                          [] \<Rightarrow> [(l, None)]
                        | ms \<Rightarrow> map (\<lambda>r. (l, Some r)) ms) ls)"

definition contentRow :: "env \<Rightarrow> vec \<Rightarrow> embeddingRow \<times> documentRow option \<Rightarrow> contentMatch" where
  "contentRow env q ed =
     (case ed of (e, d) \<Rightarrow>
        \<lparr>cm_content = emb_content e,
         cm_similarity = 1 - cosineDistance env (emb_embedding e) q,
         documentTitle = map_option doc_title d,
         documentType = map_option doc_type d,
         cm_metadata = emb_metadata e,
         cm_pageNumber = pageNumber (emb_metadata e),
         cm_section = m_section (emb_metadata e)\<rparr>)"

definition findRelevantContent ::
  "env \<Rightarrow> string \<Rightarrow> world \<Rightarrow> (error + contentMatch list) \<times> world" where
  "findRelevantContent env userQuery w =
     (case generateEmbeddings env
             \<lparr>pageContent = userQuery,
              metadata = \<lparr>pageNumber = 1, m_section = None, timestamp = None\<rparr>\<rparr> w of
        (Inl e, w') \<Rightarrow> (Inl e, w')
      | (Inr userQueryEmbedded, w') \<Rightarrow>
          (case userQueryEmbedded of
             [] \<Rightarrow> (Inl TypeError, w')
           | q # _ \<Rightarrow>
               (let joined = leftJoin (embeddings w') (documents w')
                                (\<lambda>e d. emb_resourceId e = doc_id d);
                    rows = map (contentRow env (embedding q)) joined;
                    similarContent =
                      take 6 (orderDocsDesc env (filter (\<lambda>r. 0.75 < cm_similarity r) rows))
                in (Inr similarContent, w'))))"

definition repRow ::
  "env \<Rightarrow> vec \<Rightarrow> representativeEmbeddingRow \<times> representativeRow option \<Rightarrow> repMatch" where
  "repRow env q er =
     (case er of (e, r) \<Rightarrow>
        \<lparr>name = map_option rep_nameClean r,
         constituency = map_option rep_constituency r,
         constituencyCode = map_option rep_constituencyCode r,
         constituencyName = Option.bind r rep_constituencyName,
         district = Option.bind r rep_district,
         province = Option.bind r rep_province,
         party = map_option rep_party r,
         phone = Option.bind r rep_phone,
         permanentAddress = Option.bind r rep_permanentAddress,
         islamabadAddress = Option.bind r rep_islamabadAddress,
         rm_content = re_content e,
         rm_similarity = 1 - cosineDistance env (re_embedding e) q\<rparr>)"

definition findRelevantRepresentatives ::
  "env \<Rightarrow> string \<Rightarrow> world \<Rightarrow> (error + repMatch list) \<times> world" where
  "findRelevantRepresentatives env userQuery w =
     (case generateEmbeddings env
             \<lparr>pageContent = userQuery,
              metadata = \<lparr>pageNumber = 1, m_section = None, timestamp = None\<rparr>\<rparr> w of
        (Inl e, w') \<Rightarrow> (Inl e, w')
      | (Inr userQueryEmbedded, w') \<Rightarrow>
          (case userQueryEmbedded of
             [] \<Rightarrow> (Inl TypeError, w')
           | q # _ \<Rightarrow>
               (let joined = leftJoin (representativeEmbeddings w') (representatives w')
                                (\<lambda>e r. re_representativeId e = rep_id r);
                    rows = map (repRow env (embedding q)) joined;
                    similarReps =
                      take 5 (orderRepsDesc env (filter (\<lambda>r. 0.70 < rm_similarity r) rows))
                in (Inr similarReps, w'))))"

section \<open>Query router\<close>

definition isQueryType :: "json \<Rightarrow> bool" where
  "isQueryType t =
     (t = JString ''representative'' \<or> t = JString ''bill'' \<or> t = JString ''document'')"

text \<open>The entries that pass the filter are strings; the cast of the source is a no-op.\<close>

fun typeName :: "json \<Rightarrow> string" where
  "typeName (JString s) = s"
| "typeName _ = []"

text \<open>
  The model call is made before the \<^verbatim>\<open>try\<close> block: its rejection leaves the function.
  Inside the block only \<^verbatim>\<open>JSON.parse\<close> can throw, and the handler falls through to the
  default.
\<close>

definition detectQueryTypes :: "env \<Rightarrow> string \<Rightarrow> error + string list" where
  "detectQueryTypes env query =
     (case generateText env query of
        Inl e \<Rightarrow> Inl e
      | Inr analysis \<Rightarrow>
          Inr (case JSON_parse env analysis of
                 None \<Rightarrow> [''document'']
               | Some parsed \<Rightarrow>
                   (case parsed of
                      JArray items \<Rightarrow>
                        if length items > 0
                        then (let valid = filter isQueryType items
                              in if length valid > 0 then map typeName valid
                                 else [''document''])
                        else [''document'']
                    | _ \<Rightarrow> [''document''])))"

section \<open>Chat route handler\<close>

record message =
  msg_role :: string
  msg_content :: string

text \<open>A settled search promise: the entity type tag with the retriever's rows.\<close>

datatype searchResult =
    RepresentativeResult "repMatch list"
  | DocumentResult "contentMatch list"

definition NL :: string where
  "NL = [CHR 0x0A]"

text \<open>A nullable string inside a template literal, and the operator \<^verbatim>\<open>||\<close> on such values.\<close>

definition tpl :: "string option \<Rightarrow> string" where
  "tpl v = (case v of None \<Rightarrow> ''null'' | Some s \<Rightarrow> s)"

definition truthy :: "string option \<Rightarrow> bool" where
  "truthy v = (case v of None \<Rightarrow> False | Some s \<Rightarrow> s \<noteq> [])"

definition orElse :: "string option \<Rightarrow> string option \<Rightarrow> string option" where
  "orElse a b = (if truthy a then a else b)"

text \<open>\<^verbatim>\<open>Array.prototype.join\<close>.\<close>

fun joinWith :: "string \<Rightarrow> string list \<Rightarrow> string" where
  "joinWith sep [] = []"
| "joinWith sep [x] = x"
| "joinWith sep (x # y # ys) = x @ sep @ joinWith sep (y # ys)"

definition formatRepresentative :: "repMatch \<Rightarrow> string" where
  "formatRepresentative rep =
     ''Representative: '' @ tpl (name rep) @ NL @
     ''Constituency: '' @ tpl (constituencyCode rep) @ '' - '' @
        tpl (orElse (constituencyName rep) (constituency rep)) @ NL @
     ''District: '' @ tpl (orElse (district rep) (Some ''N/A'')) @ NL @
     ''Province: '' @ tpl (province rep) @ NL @
     ''Party: '' @ tpl (party rep) @ NL @
     ''Phone: '' @ tpl (orElse (phone rep) (Some ''Not available'')) @ NL @
     ''Permanent Address: '' @ tpl (orElse (permanentAddress rep) (Some ''Not available'')) @ NL @
     ''Islamabad Address: '' @ tpl (orElse (islamabadAddress rep) (Some ''Not available'')) @ NL @
     ''---''"

definition formatDocument :: "contentMatch \<Rightarrow> string" where
  "formatDocument c =
     ''Document: '' @ tpl (documentTitle c) @ NL @
     ''Type: '' @ tpl (documentType c) @ NL @
     ''Content: '' @ cm_content c @ NL @
     ''---''"

definition repContext :: "repMatch list \<Rightarrow> string" where
  "repContext reps = joinWith (NL @ NL) (map formatRepresentative reps)"

definition docContext :: "contentMatch list \<Rightarrow> string" where
  "docContext docs = joinWith (NL @ NL) (map formatDocument docs)"

text \<open>One turn of the formatting loop: the blocks it pushes onto \<^verbatim>\<open>contextParts\<close>.\<close>

fun formatResult :: "searchResult \<Rightarrow> string list" where
  "formatResult (RepresentativeResult reps) =
     (if length reps > 0 then [repContext reps] else [])"
| "formatResult (DocumentResult docs) =
     (if length docs > 0 then [docContext docs] else [])"

definition contextParts :: "searchResult list \<Rightarrow> string list" where
  "contextParts results = concat (map formatResult results)"

definition sourceSeparator :: string where
  "sourceSeparator = NL @ NL @ ''=== DIFFERENT SOURCE TYPE ==='' @ NL @ NL"

definition contextString :: "searchResult list \<Rightarrow> string" where
  "contextString results = joinWith sourceSeparator (contextParts results)"


text \<open>
  \<^verbatim>\<open>Promise.all\<close>: the values in order when every promise is fulfilled, a rejection as
  soon as one is rejected. Which rejection wins is a matter of time; the model takes
  the first in list order, and the properties below only ask whether there is one.
\<close>

fun Promise_all :: "(error + 'a) list \<Rightarrow> error + 'a list" where
  "Promise_all [] = Inr []"
| "Promise_all (Inl e # ps) = Inl e"
| "Promise_all (Inr v # ps) =
     (case Promise_all ps of Inl e \<Rightarrow> Inl e | Inr vs \<Rightarrow> Inr (v # vs))"

text \<open>
  The searches the handler starts, in the order of the two \<^verbatim>\<open>if\<close> statements. Each
  retriever runs up to its provider call when it is pushed, so the representative
  search makes its call first.
\<close>

definition searchPromises ::
  "env \<Rightarrow> string list \<Rightarrow> string \<Rightarrow> world \<Rightarrow> (error + searchResult) list \<times> world" where
  "searchPromises env queryTypes q w =
     (let (ps1, w1) =
            (if ''representative'' \<in> set queryTypes
             then (case findRelevantRepresentatives env q w of
                     (r, w') \<Rightarrow> ([map_sum id RepresentativeResult r], w'))
             else ([], w));
          (ps2, w2) =
            (if ''bill'' \<in> set queryTypes \<or> ''document'' \<in> set queryTypes
             then (case findRelevantContent env q w1 of
                     (r, w') \<Rightarrow> ([map_sum id DocumentResult r], w'))
             else ([], w1))
      in (ps1 @ ps2, w2))"

text \<open>
  The handler. Its value is the context string it places in the system prompt of the
  generation call; the streamed answer itself is the language model's.
  \<^verbatim>\<open>messages[messages.length - 1]\<close> is \<^verbatim>\<open>undefined\<close> for an empty array, and reading
  \<^verbatim>\<open>.content\<close> of it throws.
\<close>

definition POST :: "env \<Rightarrow> message list \<Rightarrow> world \<Rightarrow> (error + string) \<times> world" where
  "POST env messages w =
     (if messages = [] then (Inl TypeError, w)
      else
        (let lastMessage = last messages in
         case detectQueryTypes env (msg_content lastMessage) of
           Inl e \<Rightarrow> (Inl e, w)
         | Inr queryTypes \<Rightarrow>
             (case searchPromises env queryTypes (msg_content lastMessage) w of
                (promises, w') \<Rightarrow>
                  (case Promise_all promises of
                     Inl e \<Rightarrow> (Inl e, w')
                   | Inr results \<Rightarrow> (Inr (contextString results), w')))))"

section \<open>Ingestion\<close>

record ingestOptions =
  filePath :: string
  title :: string
  opt_type :: string
  status :: "string option"
  date :: "string option"
  skipExisting :: bool

datatype ingestResult =
    Skipped
  | Ingested string nat  \<comment> \<open>\<^verbatim>\<open>documentId\<close> and the number of embeddings\<close>

definition batchSize :: nat where
  "batchSize = 5"

definition checkIfProcessed :: "string \<Rightarrow> world \<Rightarrow> bool" where
  "checkIfProcessed fileName w =
     (length (take 1 (filter (\<lambda>d. doc_originalFileName d = fileName) (documents w))) > 0)"

text \<open>The argument built for \<^verbatim>\<open>generateEmbeddings\<close> from one chunk of the splitter.\<close>

definition chunkArg :: "env \<Rightarrow> splitDoc \<Rightarrow> chunkMeta chunk" where
  "chunkArg env c =
     \<lparr>pageContent = sd_pageContent c,
      metadata =
        \<lparr>pageNumber = (case sd_pageNumber c of
                          None \<Rightarrow> 1
                        | Some n \<Rightarrow> if n = 0 then 1 else n),
         m_section = detectSection env (sd_pageContent c),
         timestamp = detectTimestamp env (sd_pageContent c)\<rparr>\<rparr>"

text \<open>
  \<^verbatim>\<open>batch.map(chunk => generateEmbeddings(...))\<close>: every call of the batch is started,
  whether or not an earlier one of the same batch is going to fail.
\<close>

fun embedAll ::
  "env \<Rightarrow> chunkMeta chunk list \<Rightarrow> world \<Rightarrow> (error + chunkMeta embedded list) list \<times> world" where
  "embedAll env [] w = ([], w)"
| "embedAll env (c # cs) w =
     (case generateEmbeddings env c w of
        (r, w') \<Rightarrow> (case embedAll env cs w' of (rs, w'') \<Rightarrow> (r # rs, w'')))"

text \<open>
  The batch loop \<^verbatim>\<open>for (let i = 0; i < chunks.length; i += batchSize)\<close>. A rejected
  \<^verbatim>\<open>Promise.all\<close> leaves the loop and the function. The delay between batches has no
  effect on the state.
\<close>

function embedBatches ::
  "env \<Rightarrow> splitDoc list \<Rightarrow> nat \<Rightarrow> chunkMeta embedded list list \<Rightarrow> world
     \<Rightarrow> (error + chunkMeta embedded list list) \<times> world" where
  "embedBatches env chunks i embeddingsArray w =
     (if i < length chunks
      then (let batch = take batchSize (drop i chunks) in
            case embedAll env (map (chunkArg env) batch) w of
              (rs, w') \<Rightarrow>
                (case Promise_all rs of
                   Inl e \<Rightarrow> (Inl e, w')
                 | Inr batchEmbeddings \<Rightarrow>
                     embedBatches env chunks (i + batchSize)
                       (embeddingsArray @ batchEmbeddings) w'))
      else (Inr embeddingsArray, w))"
  by pat_completeness auto
termination
  by (relation "measure (\<lambda>(env, chunks, i, acc, w). length chunks - i)")
     (auto simp: batchSize_def)

text \<open>
  \<^verbatim>\<open>db.insert(documents).values({...}).returning()\<close>: the row is appended with a fresh
  identifier and handed back.
\<close>

definition insertDocument ::
  "env \<Rightarrow> string \<Rightarrow> string \<Rightarrow> string \<Rightarrow> string \<Rightarrow> world \<Rightarrow> documentRow \<times> world" where
  "insertDocument env ttl typ text fileName w =
     (let document = \<lparr>doc_id = nanoid env (idsDrawn w), doc_title = ttl, doc_type = typ,
                       doc_content = text, doc_originalFileName = fileName\<rparr>
      in (document, w\<lparr>documents := documents w @ [document], idsDrawn := idsDrawn w + 1\<rparr>))"

text \<open>\<^verbatim>\<open>db.insert(embeddingsTable).values(embeddingsArray.flat().map(...))\<close>.\<close>

definition storeEmbeddings ::
  "env \<Rightarrow> string \<Rightarrow> chunkMeta embedded list \<Rightarrow> world \<Rightarrow> world" where
  "storeEmbeddings env documentId flat w =
     (let rows = map (\<lambda>(k, e). \<lparr>emb_id = nanoid env (idsDrawn w + k),
                                 emb_resourceId = documentId,
                                 emb_embedding = embedding e,
                                 emb_content = content e,
                                 emb_metadata = e_metadata e\<rparr>)
                     (enumerate 0 flat)
      in w\<lparr>embeddings := embeddings w @ rows, idsDrawn := idsDrawn w + length flat\<rparr>)"

text \<open>
  Modelled from the spec: \<^verbatim>\<open>createProceeding\<close> of \<^verbatim>\<open>lib/proceedings\<close>, which is not among
  the sources. The spec has the type-specific step persist the derived record with the
  generated summary; here it appends the record to the proceedings table.
\<close>

definition createProceeding :: "proceedingRow \<Rightarrow> world \<Rightarrow> world" where
  "createProceeding p w = w\<lparr>proceedings := proceedings w @ [p]\<rparr>"

definition derivedRecord :: "env \<Rightarrow> ingestOptions \<Rightarrow> string \<Rightarrow> string \<Rightarrow> world \<Rightarrow> world" where
  "derivedRecord env options fileName text w =
     (if opt_type options = ''bill''
      then (let summary = generateBillSummary env text
            in w\<lparr>bills := bills w @
                   [\<lparr>bill_title = title options,
                     bill_status = tpl (orElse (status options) (Some ''passed'')),
                     bill_summary = summary,
                     bill_originalText = text\<rparr>]\<rparr>)
      else if opt_type options = ''parliamentary_bulletin''
      then (let summary = generateProceedingSummary env text;
                bulletinDate = tpl (orElse (date options)
                                      (Some (extractDateFromFilename env fileName)))
            in createProceeding
                 \<lparr>proc_title = title options, proc_date = bulletinDate,
                  proc_summary = summary, proc_originalText = text\<rparr> w)
      else w)"

definition ingestDocument ::
  "env \<Rightarrow> ingestOptions \<Rightarrow> world \<Rightarrow> (error + ingestResult) \<times> world" where
  "ingestDocument env options w =
     (let fileName = path_basename env (filePath options) in
      if skipExisting options \<and> checkIfProcessed fileName w then (Inr Skipped, w)
      else
        (case extractTextFromPDF env (filePath options) of
           Inl e \<Rightarrow> (Inl e, w)
         | Inr text \<Rightarrow>
             (case insertDocument env (title options) (opt_type options) text fileName w of
                (document, w1) \<Rightarrow>
                  (let chunks = createDocuments env text in
                   case embedBatches env chunks 0 [] w1 of
                     (Inl e, w2) \<Rightarrow> (Inl e, w2)
                   | (Inr embeddingsArray, w2) \<Rightarrow>
                       (let flat = concat embeddingsArray;
                            w3 = storeEmbeddings env (doc_id document) flat w2;
                            w4 = derivedRecord env options fileName text w3
                        in (Inr (Ingested (doc_id document) (length flat)), w4))))))"

section \<open>Document chunker\<close>




text \<open>
  Modelled from the spec: the hard character cut of the document chunker, whose code
  (the package's splitter) is not among the sources. The spec has a text without
  detectable separators cut into fixed-width pieces that tile the text with only the
  specified overlap duplicated, and a text shorter than one chunk kept as one chunk.
  The cuts are positions \<open>(from, to)\<close> in the text: each piece is \<open>chunkSize\<close>
  characters wide, the next one starts \<open>chunkOverlap\<close> characters before the end of
  the previous one, and the last one ends with the text. (For an overlap that is not
  smaller than the chunk size there is no such tiling; the text is then left whole.)
\<close>

function hardCutSpans :: "nat \<Rightarrow> nat \<Rightarrow> nat \<Rightarrow> nat \<Rightarrow> (nat \<times> nat) list" where
  "hardCutSpans chunkSize chunkOverlap start n =
     (if n \<le> start + chunkSize \<or> chunkSize \<le> chunkOverlap then [(start, n)]
      else (start, start + chunkSize) #
           hardCutSpans chunkSize chunkOverlap (start + chunkSize - chunkOverlap) n)"
  by pat_completeness auto
termination
  by (relation "measure (\<lambda>(chunkSize, chunkOverlap, start, n). n - start)") auto

definition slice :: "string \<Rightarrow> nat \<times> nat \<Rightarrow> string" where
  "slice text p = take (snd p - fst p) (drop (fst p) text)"



text \<open>The chunks put together again, the overlap at the start of each later chunk removed.\<close>

fun dropOverlaps :: "nat \<Rightarrow> string list \<Rightarrow> string" where
  "dropOverlaps chunkOverlap [] = []"
| "dropOverlaps chunkOverlap (c # cs) = c @ concat (map (drop chunkOverlap) cs)"


section \<open>Example store and services\<close>

text \<open>
  A small store and concrete services, on which the theorems below are instantiated.
  The distance table agrees with cosine distance on the vectors the store uses:
  \<open>[4, 3]\<close> and \<open>[1, 0]\<close> are at distance \<open>1 - 4/5\<close>, \<open>[3, 4]\<close> and \<open>[1, 0]\<close> at
  \<open>1 - 3/5\<close>, \<open>[0, 1]\<close> and \<open>[1, 0]\<close> at \<open>1\<close>.
\<close>

definition exampleDistance :: "vec \<Rightarrow> vec \<Rightarrow> real" where
  "exampleDistance a b =
     (if a = b then 0
      else if a = [4, 3] \<and> b = [1, 0] then 0.2
      else if a = [3, 4] \<and> b = [1, 0] then 0.4
      else 1)"

text \<open>The model output \<^verbatim>\<open>["representative","bill"]\<close> and a parser for the outputs used.\<close>

definition exampleAnalysis :: string where
  "exampleAnalysis =
     ''['' @ [CHR 0x22] @ ''representative'' @ [CHR 0x22] @ '','' @
             [CHR 0x22] @ ''bill'' @ [CHR 0x22] @ '']''"

definition exampleParse :: "string \<Rightarrow> json option" where
  "exampleParse s =
     (if s = exampleAnalysis then Some (JArray [JString ''representative'', JString ''bill''])
      else if s = ''[]'' then Some (JArray [])
      else if s = ''[1]'' then Some (JArray [JNumber 1])
      else if s = ''null'' then Some JNull
      else None)"

text \<open>
  A stand-in splitter with one chunk per character, and services of which the
  embedding provider rejects exactly the calls selected by \<open>failing\<close>; the query
  vector is \<open>[1, 0]\<close>. Rows are ordered by a stable descending sort.
\<close>

definition exampleEnv :: "(nat \<Rightarrow> bool) \<Rightarrow> string \<Rightarrow> env" where
  "exampleEnv failing analysis =
     \<lparr>embed = (\<lambda>n v. if failing n then Inl (ProviderError ''rate limit'') else Inr [1, 0]),
      generateText = (\<lambda>q. Inr analysis),
      JSON_parse = exampleParse,
      cosineDistance = exampleDistance,
      orderDocsDesc = sort_key (\<lambda>r. - cm_similarity r),
      orderRepsDesc = sort_key (\<lambda>r. - rm_similarity r),
      extractTextFromPDF = (\<lambda>p. Inr ''An Act to amend the Elections Act.''),
      createDocuments = map (\<lambda>c. \<lparr>sd_pageContent = [c], sd_pageNumber = None\<rparr>),
      path_basename = (\<lambda>p. ''bill.pdf''),
      nanoid = (\<lambda>n. replicate (Suc n) (CHR ''x'')),
      detectSection = (\<lambda>c. None),
      detectTimestamp = (\<lambda>c. None),
      extractDateFromFilename = (\<lambda>f. ''2024-12-31''),
      generateBillSummary = (\<lambda>t. ''Summary generation failed.''),
      generateProceedingSummary = (\<lambda>t. ''Summary generation failed.'')\<rparr>"

definition exampleMeta :: chunkMeta where
  "exampleMeta = \<lparr>pageNumber = 1, m_section = None, timestamp = None\<rparr>"

definition exampleWorld :: world where
  "exampleWorld =
     \<lparr>documents =
        [\<lparr>doc_id = ''d1'', doc_title = ''Constitution'', doc_type = ''constitution'',
          doc_content = ''Article 25'', doc_originalFileName = ''constitution.pdf''\<rparr>],
      embeddings =
        [\<lparr>emb_id = ''e1'', emb_resourceId = ''d1'', emb_embedding = [1, 0],
          emb_content = ''A'', emb_metadata = exampleMeta\<rparr>,
         \<lparr>emb_id = ''e2'', emb_resourceId = ''d1'', emb_embedding = [3, 4],
          emb_content = ''B'', emb_metadata = exampleMeta\<rparr>,
         \<lparr>emb_id = ''e3'', emb_resourceId = ''d1'', emb_embedding = [4, 3],
          emb_content = ''C'', emb_metadata = exampleMeta\<rparr>],
      bills = [],
      proceedings = [],
      representatives =
        [\<lparr>rep_id = ''r1'', rep_nameClean = ''Ali Khan'', rep_constituency = ''NA-2Swat-I'',
          rep_constituencyCode = ''NA-2'', rep_constituencyName = Some ''Swat-I'',
          rep_district = None, rep_province = Some ''KP'', rep_party = ''IND'',
          rep_phone = None, rep_permanentAddress = None, rep_islamabadAddress = None\<rparr>],
      representativeEmbeddings =
        [\<lparr>re_representativeId = ''r1'', re_content = ''P'', re_embedding = [3, 4]\<rparr>,
         \<lparr>re_representativeId = ''r1'', re_content = ''Q'', re_embedding = [4, 3]\<rparr>],
      embedCalls = [],
      idsDrawn = 0\<rparr>"

text \<open>A store whose two chunks are equally close to the query, \<open>A\<close> inserted before \<open>B\<close>.\<close>

definition tieWorld :: world where
  "tieWorld =
     exampleWorld\<lparr>embeddings :=
        [\<lparr>emb_id = ''e1'', emb_resourceId = ''d1'', emb_embedding = [1, 0],
          emb_content = ''A'', emb_metadata = exampleMeta\<rparr>,
         \<lparr>emb_id = ''e2'', emb_resourceId = ''d1'', emb_embedding = [1, 0],
          emb_content = ''B'', emb_metadata = exampleMeta\<rparr>]\<rparr>"

text \<open>
  A database that sorts ascending by similarity and reads the result backwards: the
  keys come out descending, rows with equal keys in the reverse of their stored order.
\<close>

definition tieEnv :: env where
  "tieEnv = (exampleEnv (\<lambda>n. False) exampleAnalysis)
              \<lparr>orderDocsDesc := (\<lambda>rows. rev (sort_key cm_similarity rows))\<rparr>"

text \<open>A store in which no vector is close enough to the query for either retriever.\<close>

definition farWorld :: world where
  "farWorld =
     exampleWorld\<lparr>embeddings :=
        [\<lparr>emb_id = ''e2'', emb_resourceId = ''d1'', emb_embedding = [3, 4],
          emb_content = ''B'', emb_metadata = exampleMeta\<rparr>],
      representativeEmbeddings :=
        [\<lparr>re_representativeId = ''r1'', re_content = ''P'', re_embedding = [3, 4]\<rparr>]\<rparr>"

text \<open>Rows the retrievers build on these stores, and a one-message conversation.\<close>

definition exampleDoc :: "string \<Rightarrow> real \<Rightarrow> contentMatch" where
  "exampleDoc c s =
     \<lparr>cm_content = c, cm_similarity = s, documentTitle = Some ''Constitution'',
      documentType = Some ''constitution'', cm_metadata = exampleMeta,
      cm_pageNumber = 1, cm_section = None\<rparr>"

definition exampleRep :: repMatch where
  "exampleRep =
     \<lparr>name = Some ''Ali Khan'', constituency = Some ''NA-2Swat-I'',
      constituencyCode = Some ''NA-2'', constituencyName = Some ''Swat-I'',
      district = None, province = Some ''KP'', party = Some ''IND'', phone = None,
      permanentAddress = None, islamabadAddress = None,
      rm_content = ''Q'', rm_similarity = 0.8\<rparr>"

definition exampleMessages :: "message list" where
  "exampleMessages =
     [\<lparr>msg_role = ''user'', msg_content = ''Did MNA Y propose any bills?''\<rparr>]"

definition exampleOptions :: ingestOptions where
  "exampleOptions =
     \<lparr>filePath = ''docs/bill.pdf'', title = ''Bill'', opt_type = ''bill'',
      status = None, date = None, skipExisting = False\<rparr>"

section \<open>The embedding helper\<close>

lemma generateEmbeddings_ok:
  "embed env (length (embedCalls w)) (pageContent chunk) = Inr emb \<Longrightarrow>
   generateEmbeddings env chunk w =
     (Inr [\<lparr>content = pageContent chunk, embedding = emb, e_metadata = metadata chunk\<rparr>],
      w\<lparr>embedCalls := embedCalls w @ [pageContent chunk]\<rparr>)"
  by (simp add: generateEmbeddings_def embedCall_def)

lemma generateEmbeddings_fail:
  "embed env (length (embedCalls w)) (pageContent chunk) = Inl e \<Longrightarrow>
   generateEmbeddings env chunk w =
     (Inl e, w\<lparr>embedCalls := embedCalls w @ [pageContent chunk]\<rparr>)"
  by (simp add: generateEmbeddings_def embedCall_def)

lemma generateEmbeddings_snd:
  "snd (generateEmbeddings env chunk w) =
     w\<lparr>embedCalls := embedCalls w @ [pageContent chunk]\<rparr>"
  by (cases "embed env (length (embedCalls w)) (pageContent chunk)")
     (simp_all add: generateEmbeddings_ok generateEmbeddings_fail)

text \<open>
  Claim C8. For every input chunk, \<^verbatim>\<open>generateEmbeddings\<close> issues a single provider
  embedding call (the call log grows by exactly one entry, the chunk's page content),
  and returns a one-element array whose element carries the page content unchanged as
  content, the embedding that call produced, and the chunk's metadata unchanged.
\<close>

theorem generateEmbeddings_single_call:
  "embedCalls (snd (generateEmbeddings env chunk w)) = embedCalls w @ [pageContent chunk] \<and>
   (\<forall>emb. embed env (length (embedCalls w)) (pageContent chunk) = Inr emb \<longrightarrow>
      fst (generateEmbeddings env chunk w) =
        Inr [\<lparr>content = pageContent chunk, embedding = emb, e_metadata = metadata chunk\<rparr>])"
  by (simp add: generateEmbeddings_snd generateEmbeddings_ok)

theorem generateEmbeddings_single_call_witness:
  "embed (exampleEnv (\<lambda>n. False) exampleAnalysis) (length (embedCalls exampleWorld))
      ''Article 25'' = Inr [1, 0] \<and>
   embedCalls (snd (generateEmbeddings (exampleEnv (\<lambda>n. False) exampleAnalysis)
       \<lparr>pageContent = ''Article 25'', metadata = exampleMeta\<rparr> exampleWorld))
     = [''Article 25''] \<and>
   fst (generateEmbeddings (exampleEnv (\<lambda>n. False) exampleAnalysis)
       \<lparr>pageContent = ''Article 25'', metadata = exampleMeta\<rparr> exampleWorld) =
     Inr [\<lparr>content = ''Article 25'', embedding = [1, 0], e_metadata = exampleMeta\<rparr>]"
  using generateEmbeddings_single_call [of "exampleEnv (\<lambda>n. False) exampleAnalysis"
      "\<lparr>pageContent = ''Article 25'', metadata = exampleMeta\<rparr>" exampleWorld]
  by (simp add: exampleEnv_def exampleWorld_def)

section \<open>The similarity retrievers\<close>






lemma leftJoin_Nil [simp]: "leftJoin [] rs on = []"
  by (simp add: leftJoin_def)

lemma findRelevantContent_ok:
  "embed env (length (embedCalls w)) q = Inr qv \<Longrightarrow>
   findRelevantContent env q w =
     (Inr (take 6 (orderDocsDesc env (filter (\<lambda>r. 0.75 < cm_similarity r)
             (map (contentRow env qv)
                (leftJoin (embeddings w) (documents w) (\<lambda>e d. emb_resourceId e = doc_id d)))))),
      w\<lparr>embedCalls := embedCalls w @ [q]\<rparr>)"
  by (simp add: findRelevantContent_def generateEmbeddings_ok)

lemma findRelevantContent_fail:
  "embed env (length (embedCalls w)) q = Inl e \<Longrightarrow>
   findRelevantContent env q w = (Inl e, w\<lparr>embedCalls := embedCalls w @ [q]\<rparr>)"
  by (simp add: findRelevantContent_def generateEmbeddings_fail)


lemma findRelevantRepresentatives_fail:
  "embed env (length (embedCalls w)) q = Inl e \<Longrightarrow>
   findRelevantRepresentatives env q w = (Inl e, w\<lparr>embedCalls := embedCalls w @ [q]\<rparr>)"
  by (simp add: findRelevantRepresentatives_def generateEmbeddings_fail)





lemmas example_defs = exampleEnv_def exampleWorld_def leftJoin_def contentRow_def repRow_def
  exampleDistance_def exampleMeta_def tieEnv_def tieWorld_def farWorld_def
  exampleDoc_def exampleRep_def











section \<open>The query router\<close>

text \<open>
  The model call itself is outside the \<^verbatim>\<open>try\<close> block: when it is rejected there is no
  model output, and the rejection is the router's result.
\<close>

lemma detectQueryTypes_call_rejected:
  "generateText env query = Inl e \<Longrightarrow> detectQueryTypes env query = Inl e"
  by (simp add: detectQueryTypes_def)



section \<open>The chat route handler\<close>

lemma POST_unfold:
  "messages \<noteq> [] \<Longrightarrow> detectQueryTypes env (msg_content (last messages)) = Inr tags \<Longrightarrow>
   POST env messages w =
     (case searchPromises env tags (msg_content (last messages)) w of
        (promises, w') \<Rightarrow>
          (case Promise_all promises of
             Inl e \<Rightarrow> (Inl e, w')
           | Inr results \<Rightarrow> (Inr (contextString results), w')))"
  by (simp add: POST_def)







lemma example_tags:
  "detectQueryTypes (exampleEnv failing exampleAnalysis) q = Inr [''representative'', ''bill'']"
  by (simp add: detectQueryTypes_def exampleEnv_def exampleParse_def isQueryType_def)

lemma example_findDocs:
  "\<not> failing (length calls) \<Longrightarrow>
   findRelevantContent (exampleEnv failing a) q (exampleWorld\<lparr>embedCalls := calls\<rparr>) =
     (Inr [exampleDoc ''A'' 1, exampleDoc ''C'' 0.8], exampleWorld\<lparr>embedCalls := calls @ [q]\<rparr>)"
  by (subst findRelevantContent_ok [where qv = "[1, 0]"])
     (simp_all add: example_defs)


lemma example_findReps_fail:
  "failing (length calls) \<Longrightarrow>
   findRelevantRepresentatives (exampleEnv failing a) q (exampleWorld\<lparr>embedCalls := calls\<rparr>) =
     (Inl (ProviderError ''rate limit''), exampleWorld\<lparr>embedCalls := calls @ [q]\<rparr>)"
  by (subst findRelevantRepresentatives_fail [where e = "ProviderError ''rate limit''"])
     (simp_all add: example_defs)



lemma exampleWorld_calls: "exampleWorld\<lparr>embedCalls := []\<rparr> = exampleWorld"
  by (simp add: exampleWorld_def)

lemma exampleMessages_last:
  "msg_content (last exampleMessages) = ''Did MNA Y propose any bills?''"
  by (simp add: exampleMessages_def)



text \<open>
  Claim C2, as the code has it. The searches are awaited with \<^verbatim>\<open>Promise.all\<close> and no
  handler or timeout of their own: once the router has answered, the request fails
  exactly when a retriever that was started fails. The other retriever's rows are
  then discarded.
\<close>

theorem retriever_failure_fails_request:
  assumes "messages \<noteq> []"
    and "detectQueryTypes env (msg_content (last messages)) = Inr tags"
  shows "isl (fst (POST env messages w)) \<longleftrightarrow>
           (''representative'' \<in> set tags \<and>
              isl (fst (findRelevantRepresentatives env (msg_content (last messages)) w))) \<or>
           ((''bill'' \<in> set tags \<or> ''document'' \<in> set tags) \<and>
              isl (fst (findRelevantContent env (msg_content (last messages))
                     (if ''representative'' \<in> set tags
                      then snd (findRelevantRepresentatives env (msg_content (last messages)) w)
                      else w))))"
proof -
  let ?q = "msg_content (last messages)"
  obtain r1 w1 where r1: "findRelevantRepresentatives env ?q w = (r1, w1)"
    by (cases "findRelevantRepresentatives env ?q w")
  obtain r2 w2 where r2: "findRelevantContent env ?q w1 = (r2, w2)"
    by (cases "findRelevantContent env ?q w1")
  obtain r3 w3 where r3: "findRelevantContent env ?q w = (r3, w3)"
    by (cases "findRelevantContent env ?q w")
  show ?thesis
    by (cases r1; cases r2; cases r3)
       (simp_all add: POST_unfold [OF assms] searchPromises_def r1 r2 r3)
qed

theorem retriever_failure_fails_request_witness:
  "exampleMessages \<noteq> [] \<and>
   detectQueryTypes (exampleEnv (\<lambda>n. n = 0) exampleAnalysis)
     (msg_content (last exampleMessages)) = Inr [''representative'', ''bill''] \<and>
   isl (fst (findRelevantRepresentatives (exampleEnv (\<lambda>n. n = 0) exampleAnalysis)
              (msg_content (last exampleMessages)) exampleWorld)) \<and>
   isl (fst (POST (exampleEnv (\<lambda>n. n = 0) exampleAnalysis) exampleMessages exampleWorld))"
proof -
  let ?E = "exampleEnv (\<lambda>n. n = 0) exampleAnalysis"
  let ?q = "msg_content (last exampleMessages)"
  have m: "exampleMessages \<noteq> []" by (simp add: exampleMessages_def)
  have t: "detectQueryTypes ?E ?q = Inr [''representative'', ''bill'']"
    by (rule example_tags)
  have r: "isl (fst (findRelevantRepresentatives ?E ?q exampleWorld))"
    using example_findReps_fail [of "\<lambda>n. n = 0" "[]" exampleAnalysis ?q]
    by (simp add: exampleWorld_calls)
  from retriever_failure_fails_request [OF m t, of exampleWorld] m t r
  show ?thesis by simp
qed

text \<open>
  Claim C2, as stated, fails. The router asks for representatives and bills; the
  provider rejects the first embedding call, so the representative search fails, and
  answers the second, so the document search finds two chunks. The handler fails with
  the provider's error instead of answering from the document rows.
\<close>

theorem retriever_isolation_counterexample:
  "fst (findRelevantRepresentatives (exampleEnv (\<lambda>n. n = 0) exampleAnalysis)
          ''Did MNA Y propose any bills?'' exampleWorld) = Inl (ProviderError ''rate limit'') \<and>
   fst (findRelevantContent (exampleEnv (\<lambda>n. n = 0) exampleAnalysis)
          ''Did MNA Y propose any bills?''
          (snd (findRelevantRepresentatives (exampleEnv (\<lambda>n. n = 0) exampleAnalysis)
                  ''Did MNA Y propose any bills?'' exampleWorld)))
     = Inr [exampleDoc ''A'' 1, exampleDoc ''C'' 0.8] \<and>
   fst (POST (exampleEnv (\<lambda>n. n = 0) exampleAnalysis) exampleMessages exampleWorld)
     = Inl (ProviderError ''rate limit'')"
proof -
  let ?E = "exampleEnv (\<lambda>n. n = 0) exampleAnalysis"
  let ?q = "''Did MNA Y propose any bills?''"
  have m: "exampleMessages \<noteq> []" by (simp add: exampleMessages_def)
  have t: "detectQueryTypes ?E (msg_content (last exampleMessages))
             = Inr [''representative'', ''bill'']"
    by (rule example_tags)
  have r: "findRelevantRepresentatives ?E ?q exampleWorld =
             (Inl (ProviderError ''rate limit''), exampleWorld\<lparr>embedCalls := [?q]\<rparr>)"
    using example_findReps_fail [of "\<lambda>n. n = 0" "[]" exampleAnalysis ?q]
    by (simp add: exampleWorld_calls)
  have d: "findRelevantContent ?E ?q (exampleWorld\<lparr>embedCalls := [?q]\<rparr>) =
             (Inr [exampleDoc ''A'' 1, exampleDoc ''C'' 0.8],
              exampleWorld\<lparr>embedCalls := [?q] @ [?q]\<rparr>)"
    by (rule example_findDocs) simp
  have "fst (POST ?E exampleMessages exampleWorld) = Inl (ProviderError ''rate limit'')"
    by (simp add: POST_unfold [OF m t] searchPromises_def exampleMessages_last r d)
  with r d show ?thesis by simp
qed

text \<open>
  Claim C10. The handler reads the content of the last message without a guard: on
  an empty message list it throws (a \<open>TypeError\<close> from reading a property of
  \<^verbatim>\<open>undefined\<close>) before any classifier or retriever call, and returns no response.
\<close>

theorem POST_empty_messages_throws:
  "POST env [] w = (Inl TypeError, w)"
  by (simp add: POST_def)

section \<open>Ingestion under provider failure\<close>

declare embedBatches.simps [simp del]

lemma embedAll_Cons:
  "embedAll env (c # cs) w =
     (fst (generateEmbeddings env c w) # fst (embedAll env cs (snd (generateEmbeddings env c w))),
      snd (embedAll env cs (snd (generateEmbeddings env c w))))"
  by (simp split: prod.splits)

lemma embedAll_snd:
  "snd (embedAll env cs w) = w\<lparr>embedCalls := embedCalls w @ map pageContent cs\<rparr>"
proof (induction cs arbitrary: w)
  case Nil
  show ?case by simp
next
  case (Cons c cs)
  from Cons [of "snd (generateEmbeddings env c w)"] show ?case
    by (simp only: embedAll_Cons snd_conv generateEmbeddings_snd) simp
qed

lemma embedAll_length: "length (fst (embedAll env cs w)) = length cs"
  by (induction cs arbitrary: w) (simp_all only: embedAll_Cons embedAll.simps fst_conv list.size)

lemma embedAll_nth_fail:
  "k < length cs \<Longrightarrow> embed env (length (embedCalls w) + k) (pageContent (cs ! k)) = Inl err \<Longrightarrow>
   fst (embedAll env cs w) ! k = Inl err"
proof (induction cs arbitrary: w k)
  case Nil
  then show ?case by simp
next
  case (Cons c cs)
  show ?case
  proof (cases k)
    case 0
    with Cons.prems show ?thesis
      by (simp add: generateEmbeddings_fail embedAll_Cons del: embedAll.simps)
  next
    case (Suc j)
    with Cons.prems have "fst (embedAll env cs (snd (generateEmbeddings env c w))) ! j = Inl err"
      by (intro Cons.IH) (simp_all add: generateEmbeddings_snd)
    with Suc show ?thesis by (simp add: embedAll_Cons del: embedAll.simps)
  qed
qed

lemma Promise_all_isl: "isl (Promise_all ps) \<longleftrightarrow> (\<exists>p \<in> set ps. isl p)"
  by (induction ps rule: Promise_all.induct) (auto split: sum.splits)

lemma embedBatches_snd:
  "\<exists>calls. snd (embedBatches env chunks i acc w) = w\<lparr>embedCalls := embedCalls w @ calls\<rparr>"
proof (induction "length chunks - i" arbitrary: i acc w rule: less_induct)
  case less
  show ?case
  proof (cases "i < length chunks")
    case False
    then have "snd (embedBatches env chunks i acc w) = w\<lparr>embedCalls := embedCalls w @ []\<rparr>"
      by (simp add: embedBatches.simps [of env chunks i acc w])
    then show ?thesis by blast
  next
    case True
    let ?batch = "map (chunkArg env) (take batchSize (drop i chunks))"
    let ?w' = "w\<lparr>embedCalls := embedCalls w @ map pageContent ?batch\<rparr>"
    obtain rs where rs: "embedAll env ?batch w = (rs, ?w')"
      using embedAll_snd [of env ?batch w] by (cases "embedAll env ?batch w") simp
    show ?thesis
    proof (cases "Promise_all rs")
      case (Inl e)
      with True rs have "snd (embedBatches env chunks i acc w) = ?w'"
        by (simp add: embedBatches.simps [of env chunks i acc w])
      then show ?thesis by blast
    next
      case (Inr be)
      with True rs have eq: "embedBatches env chunks i acc w =
          embedBatches env chunks (i + batchSize) (acc @ be) ?w'"
        by (simp add: embedBatches.simps [of env chunks i acc w])
      from True have "length chunks - (i + batchSize) < length chunks - i"
        by (simp add: batchSize_def)
      from less [OF this, of "acc @ be" ?w'] obtain calls where
        "snd (embedBatches env chunks (i + batchSize) (acc @ be) ?w') =
           ?w'\<lparr>embedCalls := embedCalls ?w' @ calls\<rparr>" by blast
      with eq have "snd (embedBatches env chunks i acc w) =
          w\<lparr>embedCalls := embedCalls w @ (map pageContent ?batch @ calls)\<rparr>" by simp
      then show ?thesis by blast
    qed
  qed
qed

lemma embedBatches_fail:
  "i \<le> k \<Longrightarrow> k < length chunks \<Longrightarrow>
   embed env (length (embedCalls w) + (k - i)) (sd_pageContent (chunks ! k)) = Inl err \<Longrightarrow>
   isl (fst (embedBatches env chunks i acc w))"
proof (induction "length chunks - i" arbitrary: i acc w rule: less_induct)
  case less
  from less.prems have True: "i < length chunks" by simp
  let ?batch = "map (chunkArg env) (take batchSize (drop i chunks))"
  let ?w' = "w\<lparr>embedCalls := embedCalls w @ map pageContent ?batch\<rparr>"
  obtain rs where rs: "embedAll env ?batch w = (rs, ?w')"
    using embedAll_snd [of env ?batch w] by (cases "embedAll env ?batch w") simp
  show ?case
  proof (cases "Promise_all rs")
    case (Inl e)
    with True rs show ?thesis
      by (simp add: embedBatches.simps [of env chunks i acc w])
  next
    case (Inr be)
    with True rs have eq: "embedBatches env chunks i acc w =
        embedBatches env chunks (i + batchSize) (acc @ be) ?w'"
      by (simp add: embedBatches.simps [of env chunks i acc w])
    have later: "i + batchSize \<le> k"
    proof (rule ccontr)
      assume "\<not> i + batchSize \<le> k"
      with less.prems(1,2) have "k - i < length chunks - i" and "k - i < batchSize"
        by linarith+
      then have kb: "k - i < length ?batch" by simp
      from less.prems(1) have "i + (k - i) = k" by simp
      moreover from True have "drop i chunks ! (k - i) = chunks ! (i + (k - i))"
        by (intro nth_drop) simp
      ultimately have "pageContent (?batch ! (k - i)) = sd_pageContent (chunks ! k)"
        using kb by (simp add: chunkArg_def)
      with less.prems(3) have "embed env (length (embedCalls w) + (k - i))
          (pageContent (?batch ! (k - i))) = Inl err" by simp
      from embedAll_nth_fail [OF kb this] rs have "rs ! (k - i) = Inl err" by simp
      moreover from rs kb embedAll_length [of env ?batch w] have "k - i < length rs" by simp
      ultimately have "\<exists>p \<in> set rs. isl p" by (metis nth_mem sum.disc(1))
      then have "isl (Promise_all rs)" by (simp add: Promise_all_isl)
      with Inr show False by simp
    qed
    with less.prems(2) have "batchSize \<le> length chunks - i" by linarith
    then have full: "length ?batch = batchSize" by simp
    from True have dec: "length chunks - (i + batchSize) < length chunks - i"
      by (simp add: batchSize_def)
    from later have "batchSize + (k - (i + batchSize)) = k - i" by linarith
    with full have "length (embedCalls ?w') + (k - (i + batchSize))
        = length (embedCalls w) + (k - i)" by simp
    with less.prems(3) have
      "embed env (length (embedCalls ?w') + (k - (i + batchSize))) (sd_pageContent (chunks ! k))
         = Inl err" by (simp only:)
    from less.hyps [OF dec later less.prems(2) this, of "acc @ be"] eq
    show ?thesis by simp
  qed
qed

lemma ingestDocument_abort:
  assumes "\<not> (skipExisting options \<and> checkIfProcessed (path_basename env (filePath options)) w)"
    and "extractTextFromPDF env (filePath options) = Inr text"
    and "k < length (createDocuments env text)"
    and "embed env (length (embedCalls w) + k)
           (sd_pageContent (createDocuments env text ! k)) = Inl err"
  shows "\<exists>e calls. ingestDocument env options w =
           (Inl e,
            w\<lparr>documents := documents w @
                  [\<lparr>doc_id = nanoid env (idsDrawn w), doc_title = title options,
                    doc_type = opt_type options, doc_content = text,
                    doc_originalFileName = path_basename env (filePath options)\<rparr>],
              idsDrawn := idsDrawn w + 1,
              embedCalls := embedCalls w @ calls\<rparr>)"
proof -
  let ?fileName = "path_basename env (filePath options)"
  let ?doc = "\<lparr>doc_id = nanoid env (idsDrawn w), doc_title = title options,
               doc_type = opt_type options, doc_content = text,
               doc_originalFileName = ?fileName\<rparr>"
  let ?w1 = "w\<lparr>documents := documents w @ [?doc], idsDrawn := idsDrawn w + 1\<rparr>"
  let ?chunks = "createDocuments env text"
  have ins: "insertDocument env (title options) (opt_type options) text ?fileName w = (?doc, ?w1)"
    by (simp add: insertDocument_def Let_def)
  have "embed env (length (embedCalls ?w1) + (k - 0)) (sd_pageContent (?chunks ! k)) = Inl err"
    using assms(4) by simp
  from embedBatches_fail [OF _ assms(3) this, of "[]"]
  have failed: "isl (fst (embedBatches env ?chunks 0 [] ?w1))" by simp
  obtain calls where w2: "snd (embedBatches env ?chunks 0 [] ?w1)
      = ?w1\<lparr>embedCalls := embedCalls ?w1 @ calls\<rparr>"
    using embedBatches_snd [of env ?chunks 0 "[]" ?w1] by blast
  obtain r w2' where rw: "embedBatches env ?chunks 0 [] ?w1 = (r, w2')"
    by (cases "embedBatches env ?chunks 0 [] ?w1")
  with failed obtain e where r: "r = Inl e" by (cases r) simp_all
  from rw w2 have w2': "w2' = ?w1\<lparr>embedCalls := embedCalls ?w1 @ calls\<rparr>" by simp
  have "ingestDocument env options w = (Inl e, w2')"
    using assms(1,2) ins rw r by (simp add: ingestDocument_def Let_def)
  with w2' have "ingestDocument env options w =
      (Inl e, w\<lparr>documents := documents w @ [?doc], idsDrawn := idsDrawn w + 1,
                 embedCalls := embedCalls w @ calls\<rparr>)" by simp
  then show ?thesis by blast
qed

text \<open>
  Claim C1, as the code has it. When a provider call of the embedding phase fails (the
  call for chunk \<open>k\<close>, whichever batch it falls in), ingestion aborts with an error
  and no chunk-embedding row is written; the document row, inserted before the text is
  split, stays in the documents table, and the file then counts as already processed.
\<close>

theorem ingestDocument_embedding_failure:
  assumes "\<not> (skipExisting options \<and> checkIfProcessed (path_basename env (filePath options)) w)"
    and "extractTextFromPDF env (filePath options) = Inr text"
    and "k < length (createDocuments env text)"
    and "embed env (length (embedCalls w) + k)
           (sd_pageContent (createDocuments env text ! k)) = Inl err"
  shows "isl (fst (ingestDocument env options w)) \<and>
         embeddings (snd (ingestDocument env options w)) = embeddings w \<and>
         documents (snd (ingestDocument env options w)) =
           documents w @
             [\<lparr>doc_id = nanoid env (idsDrawn w), doc_title = title options,
               doc_type = opt_type options, doc_content = text,
               doc_originalFileName = path_basename env (filePath options)\<rparr>] \<and>
         checkIfProcessed (path_basename env (filePath options))
           (snd (ingestDocument env options w))"
proof -
  from ingestDocument_abort [OF assms] obtain e calls where
    "ingestDocument env options w =
           (Inl e,
            w\<lparr>documents := documents w @
                  [\<lparr>doc_id = nanoid env (idsDrawn w), doc_title = title options,
                    doc_type = opt_type options, doc_content = text,
                    doc_originalFileName = path_basename env (filePath options)\<rparr>],
              idsDrawn := idsDrawn w + 1,
              embedCalls := embedCalls w @ calls\<rparr>)" by blast
  then show ?thesis by (simp add: checkIfProcessed_def)
qed

lemma example_ingest_facts:
  "\<not> (skipExisting exampleOptions \<and>
        checkIfProcessed (path_basename (exampleEnv (\<lambda>n. n = 12) exampleAnalysis)
           (filePath exampleOptions)) exampleWorld)"
  "extractTextFromPDF (exampleEnv (\<lambda>n. n = 12) exampleAnalysis) (filePath exampleOptions)
     = Inr ''An Act to amend the Elections Act.''"
  "12 < length (createDocuments (exampleEnv (\<lambda>n. n = 12) exampleAnalysis)
                  ''An Act to amend the Elections Act.'')"
  "embed (exampleEnv (\<lambda>n. n = 12) exampleAnalysis) (length (embedCalls exampleWorld) + 12)
     (sd_pageContent (createDocuments (exampleEnv (\<lambda>n. n = 12) exampleAnalysis)
                        ''An Act to amend the Elections Act.'' ! 12))
     = Inl (ProviderError ''rate limit'')"
  by (simp_all add: exampleEnv_def exampleOptions_def exampleWorld_def)

theorem ingestDocument_embedding_failure_witness:
  "\<not> (skipExisting exampleOptions \<and>
        checkIfProcessed (path_basename (exampleEnv (\<lambda>n. n = 12) exampleAnalysis)
           (filePath exampleOptions)) exampleWorld) \<and>
   extractTextFromPDF (exampleEnv (\<lambda>n. n = 12) exampleAnalysis) (filePath exampleOptions)
     = Inr ''An Act to amend the Elections Act.'' \<and>
   12 < length (createDocuments (exampleEnv (\<lambda>n. n = 12) exampleAnalysis)
                  ''An Act to amend the Elections Act.'') \<and>
   embed (exampleEnv (\<lambda>n. n = 12) exampleAnalysis) (length (embedCalls exampleWorld) + 12)
     (sd_pageContent (createDocuments (exampleEnv (\<lambda>n. n = 12) exampleAnalysis)
                        ''An Act to amend the Elections Act.'' ! 12))
     = Inl (ProviderError ''rate limit'') \<and>
   isl (fst (ingestDocument (exampleEnv (\<lambda>n. n = 12) exampleAnalysis) exampleOptions
               exampleWorld)) \<and>
   embeddings (snd (ingestDocument (exampleEnv (\<lambda>n. n = 12) exampleAnalysis) exampleOptions
                      exampleWorld)) = embeddings exampleWorld \<and>
   map doc_originalFileName
     (documents (snd (ingestDocument (exampleEnv (\<lambda>n. n = 12) exampleAnalysis)
                        exampleOptions exampleWorld)))
     = [''constitution.pdf'', ''bill.pdf'']"
proof -
  from ingestDocument_embedding_failure [OF example_ingest_facts]
  have "isl (fst (ingestDocument (exampleEnv (\<lambda>n. n = 12) exampleAnalysis) exampleOptions
               exampleWorld))"
    and "embeddings (snd (ingestDocument (exampleEnv (\<lambda>n. n = 12) exampleAnalysis)
               exampleOptions exampleWorld)) = embeddings exampleWorld"
    and "map doc_originalFileName
     (documents (snd (ingestDocument (exampleEnv (\<lambda>n. n = 12) exampleAnalysis)
                        exampleOptions exampleWorld)))
     = [''constitution.pdf'', ''bill.pdf'']"
    by (simp_all add: exampleEnv_def exampleWorld_def)
  with example_ingest_facts show ?thesis by simp
qed

text \<open>
  Claim C1, as stated, fails. A text of 34 chunks is embedded in 7 batches; the
  provider rejects call 12, in batch 3. Ingestion aborts, and the documents table
  holds a row for \<^verbatim>\<open>bill.pdf\<close> that was not there before.
\<close>

theorem ingestDocument_partial_state_counterexample:
  "length (createDocuments (exampleEnv (\<lambda>n. n = 12) exampleAnalysis)
             ''An Act to amend the Elections Act.'') = 34 \<and>
   isl (fst (ingestDocument (exampleEnv (\<lambda>n. n = 12) exampleAnalysis) exampleOptions
               exampleWorld)) \<and>
   path_basename (exampleEnv (\<lambda>n. n = 12) exampleAnalysis) (filePath exampleOptions)
     = ''bill.pdf'' \<and>
   map doc_originalFileName (documents exampleWorld) = [''constitution.pdf''] \<and>
   map doc_originalFileName
     (documents (snd (ingestDocument (exampleEnv (\<lambda>n. n = 12) exampleAnalysis)
                        exampleOptions exampleWorld)))
     = [''constitution.pdf'', ''bill.pdf'']"
proof -
  from ingestDocument_abort [OF example_ingest_facts] obtain e calls where
    "ingestDocument (exampleEnv (\<lambda>n. n = 12) exampleAnalysis) exampleOptions exampleWorld =
       (Inl e,
        exampleWorld\<lparr>documents := documents exampleWorld @
            [\<lparr>doc_id = nanoid (exampleEnv (\<lambda>n. n = 12) exampleAnalysis) (idsDrawn exampleWorld),
              doc_title = title exampleOptions, doc_type = opt_type exampleOptions,
              doc_content = ''An Act to amend the Elections Act.'',
              doc_originalFileName =
                path_basename (exampleEnv (\<lambda>n. n = 12) exampleAnalysis)
                  (filePath exampleOptions)\<rparr>],
          idsDrawn := idsDrawn exampleWorld + 1,
          embedCalls := embedCalls exampleWorld @ calls\<rparr>)" by blast
  then show ?thesis by (simp add: exampleEnv_def exampleWorld_def)
qed

text \<open>
  With a provider that answers every call the same file is ingested in full: 34
  provider calls, 34 new chunk-embedding rows, one bill record.
\<close>

lemma example_ingest_success:
  "fst (ingestDocument (exampleEnv (\<lambda>n. False) exampleAnalysis) exampleOptions exampleWorld)
     = Inr (Ingested ''x'' 34) \<and>
   length (embedCalls (snd (ingestDocument (exampleEnv (\<lambda>n. False) exampleAnalysis)
                              exampleOptions exampleWorld))) = 34 \<and>
   length (embeddings (snd (ingestDocument (exampleEnv (\<lambda>n. False) exampleAnalysis)
                              exampleOptions exampleWorld))) = 3 + 34 \<and>
   map bill_title (bills (snd (ingestDocument (exampleEnv (\<lambda>n. False) exampleAnalysis)
                                 exampleOptions exampleWorld))) = [''Bill'']"
  by (simp add: ingestDocument_def insertDocument_def checkIfProcessed_def exampleEnv_def
      exampleOptions_def exampleWorld_def embedBatches.simps batchSize_def chunkArg_def
      generateEmbeddings_def embedCall_def storeEmbeddings_def derivedRecord_def Let_def)

section \<open>The hard cuts of the chunker\<close>

declare hardCutSpans.simps [simp del]




lemma hardCutSpans_first:
  "\<exists>e rest. hardCutSpans chunkSize chunkOverlap start n = (start, e) # rest \<and>
            (e = n \<or> e = start + chunkSize)"
  by (subst hardCutSpans.simps) simp

text \<open>
  The hard cuts lose and repeat nothing: the chunks of any text, each later one
  without its first \<open>chunkOverlap\<close> characters, put together give the text back.
\<close>

lemma hardCuts_tile_from:
  "chunkOverlap < chunkSize \<Longrightarrow> start \<le> length text \<Longrightarrow>
   dropOverlaps chunkOverlap
     (map (slice text) (hardCutSpans chunkSize chunkOverlap start (length text)))
     = drop start text"
proof (induction "length text - start" arbitrary: start rule: less_induct)
  case less
  let ?n = "length text"
  show ?case
  proof (cases "?n \<le> start + chunkSize")
    case True
    then show ?thesis
      by (simp add: hardCutSpans.simps [of chunkSize chunkOverlap start ?n] slice_def)
  next
    case False
    let ?next = "start + chunkSize - chunkOverlap"
    from False less.prems have dec: "?n - ?next < ?n - start" and le: "?next \<le> ?n"
      by linarith+
    obtain e rest where first: "hardCutSpans chunkSize chunkOverlap ?next ?n = (?next, e) # rest"
      and e: "e = ?n \<or> e = ?next + chunkSize"
      using hardCutSpans_first [of chunkSize chunkOverlap ?next ?n] by blast
    from e False less.prems have "chunkOverlap \<le> e - ?next" and "e \<le> ?n \<or> e = ?next + chunkSize"
      by linarith+
    with False less.prems have len: "chunkOverlap \<le> length (slice text (?next, e))"
      by (auto simp: slice_def)
    from less.hyps [OF dec less.prems(1) le] first
    have "slice text (?next, e) @ concat (map (drop chunkOverlap) (map (slice text) rest))
            = drop ?next text" by simp
    then have "drop chunkOverlap
                 (slice text (?next, e) @ concat (map (drop chunkOverlap) (map (slice text) rest)))
            = drop chunkOverlap (drop ?next text)" by simp
    with len have tail: "drop chunkOverlap (slice text (?next, e)) @
              concat (map (drop chunkOverlap) (map (slice text) rest))
            = drop (start + chunkSize) text"
      using less.prems(1) by (simp add: add.commute)
    have "hardCutSpans chunkSize chunkOverlap start ?n =
            (start, start + chunkSize) # (?next, e) # rest"
      using False less.prems(1) first
      by (simp add: hardCutSpans.simps [of chunkSize chunkOverlap start ?n])
    then have "dropOverlaps chunkOverlap
        (map (slice text) (hardCutSpans chunkSize chunkOverlap start ?n))
        = take chunkSize (drop start text) @ drop (start + chunkSize) text"
      using tail by (simp add: slice_def)
    also have "\<dots> = drop start text"
      by (metis add.commute append_take_drop_id drop_drop)
    finally show ?thesis .
  qed
qed




end
